theory Spec2Isabelle
  imports Complex_Main "HOL-Library.Word"
begin

section \<open>Python values used by the two components\<close>

subsection \<open>Text\<close>

text \<open>
  A Python \<open>str\<close> is a sequence of Unicode code points, so text is a list of code
  points (natural numbers), not a list of 8-bit characters. \<open>lit\<close> embeds the ASCII
  literals of the source.
\<close>

type_synonym pystr = "nat list"

definition lit :: "string \<Rightarrow> pystr" where
  "lit s = map of_char s"

text \<open>
  \<open>str.isspace\<close> for one code point, as \<open>str.strip()\<close> without argument uses it:
  the ASCII controls 0x09-0x0D and 0x1C-0x1F, the space, and the Unicode white space
  beyond ASCII.
\<close>

definition isspace :: "nat \<Rightarrow> bool" where
  "isspace c \<longleftrightarrow>
     (9 \<le> c \<and> c \<le> 13) \<or> (28 \<le> c \<and> c \<le> 32) \<or> c = 133 \<or> c = 160 \<or> c = 5760 \<or>
     (8192 \<le> c \<and> c \<le> 8202) \<or> c = 8232 \<or> c = 8233 \<or> c = 8239 \<or> c = 8287 \<or> c = 12288"

definition lstrip :: "pystr \<Rightarrow> pystr" where
  "lstrip s = dropWhile isspace s"

definition rstrip :: "pystr \<Rightarrow> pystr" where
  "rstrip s = rev (dropWhile isspace (rev s))"

definition strip :: "pystr \<Rightarrow> pystr" where
  "strip s = rstrip (lstrip s)"

definition startswith :: "pystr \<Rightarrow> pystr \<Rightarrow> bool" where
  "startswith s p \<longleftrightarrow> take (length p) s = p"

definition endswith :: "pystr \<Rightarrow> pystr \<Rightarrow> bool" where
  "endswith s p \<longleftrightarrow> length p \<le> length s \<and> drop (length s - length p) s = p"

text \<open>The slices \<open>s[n:]\<close> and \<open>s[:-n]\<close>; both stop at the ends of the string.\<close>

definition slice_from :: "nat \<Rightarrow> pystr \<Rightarrow> pystr" where
  "slice_from n s = drop n s"

definition slice_to_minus :: "nat \<Rightarrow> pystr \<Rightarrow> pystr" where
  "slice_to_minus n s = take (length s - n) s"

text \<open>The substring test \<open>t in s\<close>.\<close>

fun contains :: "pystr \<Rightarrow> pystr \<Rightarrow> bool" where
  "contains [] t = (t = [])"
| "contains (c # s) t = (startswith (c # s) t \<or> contains s t)"

subsection \<open>Floats under comparison\<close>

text \<open>
  The only operations of the source on a float are the comparisons inside \<open>min\<close> and
  \<open>max\<close>, which are exact. A float is therefore a real number, an infinity or NaN;
  the two zeros, equal under \<open>==\<close>, are one value. \<open>min(a, b)\<close> keeps \<open>a\<close>
  unless \<open>b < a\<close>, \<open>max(a, b)\<close> keeps \<open>a\<close> unless \<open>b > a\<close>, and every comparison
  with NaN is false.
\<close>

datatype pyfloat = Finite real | PosInf | NegInf | NaN

fun py_lt :: "pyfloat \<Rightarrow> pyfloat \<Rightarrow> bool" where
  "py_lt NaN _ = False"
| "py_lt _ NaN = False"
| "py_lt (Finite a) (Finite b) = (a < b)"
| "py_lt (Finite _) PosInf = True"
| "py_lt (Finite _) NegInf = False"
| "py_lt PosInf _ = False"
| "py_lt NegInf NegInf = False"
| "py_lt NegInf _ = True"

definition py_min :: "pyfloat \<Rightarrow> pyfloat \<Rightarrow> pyfloat" where
  "py_min a b = (if py_lt b a then b else a)"

definition py_max :: "pyfloat \<Rightarrow> pyfloat \<Rightarrow> pyfloat" where
  "py_max a b = (if py_lt a b then b else a)"

subsection \<open>Exceptions\<close>

text \<open>
  Every exception carries the text that \<open>str(e)\<close> gives. \<open>LibraryError\<close> stands for
  any other exception class a library raises (a validation error of the model class, a
  transport error of the remote client); \<open>except Exception\<close> catches every
  constructor.
\<close>

datatype exn =
    ValueError pystr
  | TypeError pystr
  | JSONDecodeError pystr
  | PermissionDenied pystr
  | UnicodeDecodeError pystr
  | UnboundLocalError pystr
  | AttributeError pystr
  | RecursionError pystr
  | Exception pystr
  | LibraryError pystr

fun str_of :: "exn \<Rightarrow> pystr" where
  "str_of (ValueError m) = m"
| "str_of (TypeError m) = m"
| "str_of (JSONDecodeError m) = m"
| "str_of (PermissionDenied m) = m"
| "str_of (UnicodeDecodeError m) = m"
| "str_of (UnboundLocalError m) = m"
| "str_of (AttributeError m) = m"
| "str_of (RecursionError m) = m"
| "str_of (Exception m) = m"
| "str_of (LibraryError m) = m"

section \<open>Classification client (gemini_classifier.py)\<close>

subsection \<open>Data\<close>

text \<open>
  \<open>ClassificationResult\<close>, the model class with its three typed fields. The dictionary
  that the classifier returns has the same three keys and is the same record.
\<close>

record classification_result =
  category :: pystr
  confidence :: pyfloat
  explanation :: pystr

text \<open>\<open>self.categories\<close>, set in \<open>__init__\<close>.\<close>

definition categories :: "pystr list" where
  "categories =
     [lit ''Invoice'', lit ''Receipt'', lit ''Bill'', lit ''Check'', lit ''Bank Statement'',
      lit ''Purchase Order'', lit ''Delivery Challan'', lit ''Others'']"

text \<open>
  What the remote client hands back. The block reason of the prompt feedback is a
  member of the client's enumeration, with its name and its integer value, or, for a
  value that the enumeration does not know, the plain integer. Either is truthy when
  the value is not zero (the member for "unspecified" has the value zero). Only a
  member has the attribute \<open>name\<close>: on a plain integer the read raises
  \<open>AttributeError\<close>, with the message \<open>'int' object has no attribute 'name'\<close>. The
  attribute \<open>text\<close> (the field \<open>text'\<close>) is a string, is absent, or is a property
  whose read raises.
\<close>

datatype reason = Member pystr int | PlainInt int

fun truthy :: "reason \<Rightarrow> bool" where
  "truthy (Member n v) = (v \<noteq> 0)"
| "truthy (PlainInt v) = (v \<noteq> 0)"

definition no_name_message :: pystr where
  "no_name_message =
     [39] @ lit ''int'' @ [39] @ lit '' object has no attribute '' @ [39] @ lit ''name'' @ [39]"

fun name_of :: "reason \<Rightarrow> exn + pystr" where
  "name_of (Member n v) = Inr n"
| "name_of (PlainInt v) = Inl (AttributeError no_name_message)"

datatype text_attr = Text pystr | NoTextAttr | TextRaises exn

record response =
  block_reason :: reason
  text' :: text_attr

text \<open>The two requests: one prompt string, or the list of the prompt and the image.\<close>

datatype 'img request = TextPrompt pystr | Parts pystr 'img

text \<open>
  The libraries behind the client, as parameters: the remote call of \<open>self.model\<close>,
  \<open>json.loads\<close>, and the validating constructor of the model class applied to the
  decoded value (\<open>ClassificationResult(**result_data)\<close>). The constructor gives the
  validated fields or the message of the exception it raises, a validation error or a
  \<open>TypeError\<close> (modelled as \<open>LibraryError\<close>): no handler of the source names either
  class.
\<close>

record ('img, 'json) library =
  generate_content :: "'img request \<Rightarrow> exn + response"
  json_loads :: "pystr \<Rightarrow> exn + 'json"
  ClassificationResult :: "'json \<Rightarrow> pystr + classification_result"

datatype 'img content = Str pystr | Img 'img | Other

subsection \<open>The prompt\<close>

definition prompt_lines :: "string list" where
  "prompt_lines =
     [''You are an expert financial document classifier. Your task is to analyze the provided document text and classify it into one of these categories:'',
      '''',
      ''**Categories and Definitions:**'',
      '''',
      ''1. **Invoice** - A bill sent to a customer requesting payment for goods or services provided. Usually contains seller details, buyer details, itemized list of goods/services, amounts, tax information, and payment terms.'',
      '''',
      ''2. **Receipt** - A document acknowledging that payment has been received for goods or services. Contains proof of purchase, amount paid, date of transaction, and method of payment.'',
      '''',
      ''3. **Bill** - A statement requesting payment for goods or services received. Similar to invoice but may be less formal, often from utilities, services, or suppliers.'',
      '''',
      ''4. **Check** - A written order directing a bank to pay money from the drawer's account. Contains bank details, account number, payee information, amount, date, and signature.'',
      '''',
      ''5. **Bank Statement** - A summary of financial transactions in a bank account over a specific period. Shows opening balance, deposits, withdrawals, fees, and closing balance.'',
      '''',
      ''6. **Purchase Order** - A document issued by a buyer to authorize a purchase transaction with a seller. Contains item descriptions, quantities, agreed prices, and delivery terms.'',
      '''',
      ''7. **Delivery Challan** - A document that accompanies goods during transport, showing details of goods being delivered. Often used in logistics and supply chain management.'',
      '''',
      ''8. **Others** - Any financial document that doesn't fit the above categories, such as contracts, agreements, financial reports, etc.'',
      '''',
      ''**Instructions:**'',
      ''- Analyze the document content carefully'',
      ''- Look for key indicators like document titles, formatting, specific terminology, and data patterns'',
      ''- Consider the purpose and context of the document'',
      ''- Provide your classification with a confidence score between 0.0 and 1.0'',
      ''- Give a brief explanation of why you classified it this way'',
      ''- Be conservative with confidence scores - only use high confidence (>0.9) when you're very certain'',
      '''',
      ''**Response Format:**'',
      ''Respond with JSON in this exact format:'',
      ''{'',
      ''    \"category\": \"one of the 8 categories exactly as listed above\",'',
      ''    \"confidence\": \"decimal between 0.0 and 1.0\",'',
      ''    \"explanation\": \"brief explanation of classification reasoning\"'',
      ''}'']"


definition create_classification_prompt :: pystr where
  "create_classification_prompt = concat (map (\<lambda>l. lit l @ [10]) prompt_lines)"

subsection \<open>Reading the response\<close>

text \<open>\<open>getattr(response, 'text', default)\<close>.\<close>

definition getattr_text :: "response \<Rightarrow> pystr \<Rightarrow> exn + pystr" where
  "getattr_text r d = (case text' r of Text t \<Rightarrow> Inr t | NoTextAttr \<Rightarrow> Inr d | TextRaises e \<Rightarrow> Inl e)"

text \<open>
  The normalization step in the words of the specification: strip white space, remove
  a leading \<open>```json\<close>, remove a trailing \<open>```\<close>. Both paths below are written out
  from the source and do not call it; it names the string they decode.
\<close>

definition normalized :: "pystr \<Rightarrow> pystr" where
  "normalized t =
     (let s = strip t;
          s = (if startswith s (lit ''```json'') then slice_from 7 s else s)
      in if endswith s (lit ''```'') then slice_to_minus 3 s else s)"

subsection \<open>The text path\<close>

definition text_request :: "pystr \<Rightarrow> 'img request" where
  "text_request txt =
     TextPrompt (create_classification_prompt
                  @ lit ''\<newline>\<newline>Document text to classify:\<newline>\<newline>'' @ txt)"

text \<open>
  The body of the \<open>try\<close> of \<open>_classify_text\<close>. Beside its outcome it gives the
  binding of the local \<open>response\<close> when it ended, which the first handler reads.
\<close>

definition classify_text_try ::
  "('img, 'json) library \<Rightarrow> pystr \<Rightarrow> response option \<times> (exn + classification_result)" where
  "classify_text_try L txt =
     (case generate_content L (text_request txt) of
        Inl e \<Rightarrow> (None, Inl e)
      | Inr response \<Rightarrow>
          (Some response,
           (if truthy (block_reason response) then
              (case name_of (block_reason response) of
                 Inl e \<Rightarrow> Inl e
               | Inr name \<Rightarrow>
                   Inl (ValueError
                         (lit ''Classification failed due to safety settings. Reason: '' @ name)))
            else
                (case text' response of
                   TextRaises e \<Rightarrow> Inl e
                 | NoTextAttr \<Rightarrow>
                     Inl (ValueError
                           (lit ''Classification failed: The AI returned an empty response.''))
                 | Text t \<Rightarrow>
                     (let response_text = strip t;
                          response_text =
                            (if startswith response_text (lit ''```json'')
                             then slice_from 7 response_text else response_text);
                          response_text =
                            (if endswith response_text (lit ''```'')
                             then slice_to_minus 3 response_text else response_text)
                      in case json_loads L response_text of
                           Inl e \<Rightarrow> Inl e
                         | Inr result_data \<Rightarrow>
                             (case ClassificationResult L result_data of
                                Inl m \<Rightarrow> Inl (LibraryError m)
                              | Inr classification_result \<Rightarrow>
                                  (let classification_result =
                                         (if category classification_result \<notin> set categories
                                          then classification_result\<lparr>category := lit ''Others''\<rparr>
                                          else classification_result);
                                       confidence' =
                                         py_max (Finite 0.0)
                                           (py_min (Finite 1.0) (confidence classification_result))
                                   in Inr \<lparr>category = category classification_result,
                                           confidence = confidence',
                                           explanation = explanation classification_result\<rparr>)))))))"

text \<open>
  \<open>_classify_text\<close>: the body under its three handlers. The result is the list of
  messages written with \<open>logging.error\<close> and the value returned or the exception that
  leaves the method. A handler that raises is not caught by a later handler of the same
  \<open>try\<close>; the first handler reads \<open>response\<close>, which is unbound when the remote call
  itself raised.
\<close>

definition classify_text ::
  "('img, 'json) library \<Rightarrow> pystr \<Rightarrow> pystr list \<times> (exn + classification_result)" where
  "classify_text L txt =
     (case classify_text_try L txt of
        (bound, Inr d) \<Rightarrow> ([], Inr d)
      | (bound, Inl (JSONDecodeError m)) \<Rightarrow>
          (case bound of
             None \<Rightarrow>
               ([], Inl (UnboundLocalError
                          (lit ''cannot access local variable 'response' where it is not associated with a value'')))
           | Some response \<Rightarrow>
               (case getattr_text response (lit ''N/A'') of
                  Inl e \<Rightarrow> ([], Inl e)
                | Inr raw_response \<Rightarrow>
                    ([lit ''JSON decode error: '' @ m @ lit ''. AI response was: '' @ raw_response],
                     Inl (ValueError
                           (lit ''Classification failed: The AI returned improperly formatted data. Full AI response: ''
                            @ raw_response)))))
      | (bound, Inl (PermissionDenied m)) \<Rightarrow>
          ([lit ''Permission Denied error: '' @ m],
           Inl (ValueError
                 (lit ''Classification failed: Permission denied. Please check if your GEMINI_API_KEY is correct and has the necessary permissions.'')))
      | (bound, Inl e) \<Rightarrow>
          ([lit ''An unexpected classification error occurred: '' @ str_of e],
           Inl (ValueError
                 (lit ''An unexpected error occurred during classification: '' @ str_of e))))"

subsection \<open>The image path\<close>

definition image_request :: "'img \<Rightarrow> 'img request" where
  "image_request img = Parts create_classification_prompt img"

definition classify_image_try ::
  "('img, 'json) library \<Rightarrow> 'img \<Rightarrow> response option \<times> (exn + classification_result)" where
  "classify_image_try L img =
     (case generate_content L (image_request img) of
        Inl e \<Rightarrow> (None, Inl e)
      | Inr response \<Rightarrow>
          (Some response,
           (if truthy (block_reason response) then
              (case name_of (block_reason response) of
                 Inl e \<Rightarrow> Inl e
               | Inr name \<Rightarrow>
                   Inl (ValueError
                         (lit ''Classification failed due to safety settings. Reason: '' @ name)))
            else
                (case text' response of
                   TextRaises e \<Rightarrow> Inl e
                 | NoTextAttr \<Rightarrow>
                     Inl (ValueError
                           (lit ''Classification failed: The AI returned an empty response.''))
                 | Text t \<Rightarrow>
                     (let response_text = strip t;
                          response_text =
                            (if startswith response_text (lit ''```json'')
                             then slice_from 7 response_text else response_text);
                          response_text =
                            (if endswith response_text (lit ''```'')
                             then slice_to_minus 3 response_text else response_text)
                      in case json_loads L response_text of
                           Inl e \<Rightarrow> Inl e
                         | Inr result_data \<Rightarrow>
                             (case ClassificationResult L result_data of
                                Inl m \<Rightarrow> Inl (LibraryError m)
                              | Inr classification_result \<Rightarrow>
                                  (let classification_result =
                                         (if category classification_result \<notin> set categories
                                          then classification_result\<lparr>category := lit ''Others''\<rparr>
                                          else classification_result);
                                       confidence' =
                                         py_max (Finite 0.0)
                                           (py_min (Finite 1.0) (confidence classification_result))
                                   in Inr \<lparr>category = category classification_result,
                                           confidence = confidence',
                                           explanation = explanation classification_result\<rparr>)))))))"

definition classify_image ::
  "('img, 'json) library \<Rightarrow> 'img \<Rightarrow> pystr list \<times> (exn + classification_result)" where
  "classify_image L img =
     (case classify_image_try L img of
        (bound, Inr d) \<Rightarrow> ([], Inr d)
      | (bound, Inl (JSONDecodeError m)) \<Rightarrow>
          (case bound of
             None \<Rightarrow>
               ([], Inl (UnboundLocalError
                          (lit ''cannot access local variable 'response' where it is not associated with a value'')))
           | Some response \<Rightarrow>
               (case getattr_text response (lit ''N/A'') of
                  Inl e \<Rightarrow> ([], Inl e)
                | Inr raw_response \<Rightarrow>
                    ([lit ''JSON decode error: '' @ m @ lit ''. AI response was: '' @ raw_response],
                     Inl (ValueError
                           (lit ''Classification failed: The AI returned improperly formatted data. Full AI response: ''
                            @ raw_response)))))
      | (bound, Inl (PermissionDenied m)) \<Rightarrow>
          ([lit ''Permission Denied error: '' @ m],
           Inl (ValueError
                 (lit ''Classification failed: Permission denied. Please check if your GEMINI_API_KEY is correct and has the necessary permissions.'')))
      | (bound, Inl e) \<Rightarrow>
          ([lit ''An unexpected classification error occurred: '' @ str_of e],
           Inl (ValueError
                 (lit ''An unexpected error occurred during classification: '' @ str_of e))))"

subsection \<open>The entry point\<close>

definition classify_document ::
  "('img, 'json) library \<Rightarrow> 'img content \<Rightarrow> pystr list \<times> (exn + classification_result)" where
  "classify_document L content =
     (case content of
        Str s \<Rightarrow> classify_text L s
      | Img i \<Rightarrow> classify_image L i
      | Other \<Rightarrow> ([], Inl (TypeError (lit ''Unsupported content type. Must be str or PIL Image.''))))"

section \<open>Content extractor (document_processor.py)\<close>

subsection \<open>The uploaded file and the decoders\<close>

text \<open>
  The uploaded file is a byte buffer with a read position: \<open>read()\<close> gives the bytes
  from the position to the end and moves the position there, \<open>seek(n)\<close> sets it.
\<close>

type_synonym byte = "8 word"

record uploaded_file =
  file_type :: pystr
  data :: "byte list"
  pos :: nat

definition read :: "uploaded_file \<Rightarrow> byte list \<times> uploaded_file" where
  "read f = (drop (pos f) (data f), f\<lparr>pos := max (pos f) (length (data f))\<rparr>)"

definition seek :: "uploaded_file \<Rightarrow> nat \<Rightarrow> uploaded_file" where
  "seek f n = f\<lparr>pos := n\<rparr>"

text \<open>
  \<open>bytes.decode('utf-8')\<close>, strict: the well-formed byte sequences of the Unicode
  standard (no overlong form, no surrogate, nothing above U+10FFFF). The handler of
  the source does not read the message of the error, which is not modelled.
\<close>

definition continuation :: "nat \<Rightarrow> bool" where
  "continuation b \<longleftrightarrow> 128 \<le> b \<and> b \<le> 191"

fun utf8 :: "nat list \<Rightarrow> pystr option" where
  "utf8 [] = Some []"
| "utf8 (b0 # bs) =
     (if b0 < 128 then map_option ((#) b0) (utf8 bs)
      else if 194 \<le> b0 \<and> b0 \<le> 223 then
        (case bs of
           b1 # r \<Rightarrow>
             if continuation b1
             then map_option ((#) ((b0 - 192) * 64 + (b1 - 128))) (utf8 r) else None
         | _ \<Rightarrow> None)
      else if 224 \<le> b0 \<and> b0 \<le> 239 then
        (case bs of
           b1 # b2 # r \<Rightarrow>
             if (if b0 = 224 then 160 else 128) \<le> b1 \<and> b1 \<le> (if b0 = 237 then 159 else 191)
                \<and> continuation b2
             then map_option ((#) ((b0 - 224) * 4096 + (b1 - 128) * 64 + (b2 - 128))) (utf8 r)
             else None
         | _ \<Rightarrow> None)
      else if 240 \<le> b0 \<and> b0 \<le> 244 then
        (case bs of
           b1 # b2 # b3 # r \<Rightarrow>
             if (if b0 = 240 then 144 else 128) \<le> b1 \<and> b1 \<le> (if b0 = 244 then 143 else 191)
                \<and> continuation b2 \<and> continuation b3
             then map_option
                    ((#) ((b0 - 240) * 262144 + (b1 - 128) * 4096 + (b2 - 128) * 64 + (b3 - 128)))
                    (utf8 r)
             else None
         | _ \<Rightarrow> None)
      else None)"

definition decode_utf8 :: "byte list \<Rightarrow> exn + pystr" where
  "decode_utf8 bs =
     (case utf8 (map unat bs) of
        Some s \<Rightarrow> Inr s
      | None \<Rightarrow> Inl (UnicodeDecodeError (lit ''invalid utf-8'')))"

text \<open>\<open>bytes.decode('latin-1')\<close>: every byte is the code point of its value.\<close>

definition decode_latin1 :: "byte list \<Rightarrow> exn + pystr" where
  "decode_latin1 bs = Inr (map unat bs)"

text \<open>
  The parsers behind the extractor, as parameters. \<open>PdfReader\<close> gives, for the bytes of
  the file, the pages of the document, each page being what its \<open>extract_text()\<close>
  gives or raises; \<open>Document\<close> gives the texts of the paragraphs; \<open>Image_open\<close> is
  \<open>Image.open\<close> on the file.
\<close>

record 'img parsers =
  PdfReader :: "byte list \<Rightarrow> exn + (exn + pystr) list"
  Document :: "byte list \<Rightarrow> exn + pystr list"
  Image_open :: "uploaded_file \<Rightarrow> (exn + 'img) \<times> uploaded_file"

subsection \<open>The extractors\<close>

text \<open>The loop \<open>for page in pdf_reader.pages: text += page.extract_text() + "\n"\<close>.\<close>

fun pdf_loop :: "(exn + pystr) list \<Rightarrow> pystr \<Rightarrow> exn + pystr" where
  "pdf_loop [] text = Inr text"
| "pdf_loop (page # pages) text =
     (case page of
        Inl e \<Rightarrow> Inl e
      | Inr page_text \<Rightarrow> pdf_loop pages (text @ page_text @ lit ''\<newline>''))"

definition extract_from_pdf ::
  "'img parsers \<Rightarrow> uploaded_file \<Rightarrow> (exn + pystr) \<times> uploaded_file" where
  "extract_from_pdf P f =
     (let (bytes, f) = read f
      in case (case PdfReader P bytes of
                 Inl e \<Rightarrow> Inl e
               | Inr pages \<Rightarrow>
                   (case pdf_loop pages [] of
                      Inl e \<Rightarrow> Inl e
                    | Inr text \<Rightarrow> Inr (strip text))) of
           Inl e \<Rightarrow> (Inl (Exception (lit ''Failed to extract text from PDF: '' @ str_of e)), f)
         | Inr text \<Rightarrow> (Inr text, f))"

definition extract_from_text :: "uploaded_file \<Rightarrow> (exn + pystr) \<times> uploaded_file" where
  "extract_from_text f =
     (let (bytes, f) = read f
      in case decode_utf8 bytes of
           Inr text \<Rightarrow> (Inr (strip text), f)
         | Inl (UnicodeDecodeError m) \<Rightarrow>
             (let f = seek f 0;
                  (bytes, f) = read f
              in case decode_latin1 bytes of
                   Inr text \<Rightarrow> (Inr (strip text), f)
                 | Inl e \<Rightarrow>
                     (Inl (Exception (lit ''Failed to decode text file: '' @ str_of e)), f))
         | Inl e \<Rightarrow> (Inl (Exception (lit ''Failed to read text file: '' @ str_of e)), f))"

text \<open>The loop \<open>for paragraph in doc.paragraphs: text += paragraph.text + "\n"\<close>.\<close>

fun docx_loop :: "pystr list \<Rightarrow> pystr \<Rightarrow> pystr" where
  "docx_loop [] text = text"
| "docx_loop (paragraph # paragraphs) text =
     docx_loop paragraphs (text @ paragraph @ lit ''\<newline>'')"

definition extract_from_docx ::
  "'img parsers \<Rightarrow> uploaded_file \<Rightarrow> (exn + pystr) \<times> uploaded_file" where
  "extract_from_docx P f =
     (let (bytes, f) = read f
      in case Document P bytes of
           Inl e \<Rightarrow>
             (Inl (Exception (lit ''Failed to extract text from Word document: '' @ str_of e)), f)
         | Inr paragraphs \<Rightarrow> (Inr (strip (docx_loop paragraphs [])), f))"

text \<open>
  The body of the \<open>try\<close> of \<open>extract_text\<close>: the dispatch on the declared media type.
\<close>

definition extract_text_try ::
  "'img parsers \<Rightarrow> uploaded_file \<Rightarrow> (exn + 'img content) \<times> uploaded_file" where
  "extract_text_try P f =
     (if file_type f = lit ''application/pdf'' then
        (case extract_from_pdf P f of (r, f) \<Rightarrow> (map_sum id Str r, f))
      else if startswith (file_type f) (lit ''image/'') then
        (case Image_open P f of (r, f) \<Rightarrow> (map_sum id Img r, f))
      else if file_type f = lit ''text/plain'' then
        (case extract_from_text f of (r, f) \<Rightarrow> (map_sum id Str r, f))
      else if file_type f
              = lit ''application/vnd.openxmlformats-officedocument.wordprocessingml.document'' then
        (case extract_from_docx P f of (r, f) \<Rightarrow> (map_sum id Str r, f))
      else (Inl (ValueError (lit ''Unsupported file type: '' @ file_type f)), f))"

text \<open>
  \<open>extract_text\<close>: every exception of the body is shown with \<open>st.error\<close> and the
  method returns \<open>None\<close>. The result is the list of messages shown, the value
  returned and the file as the call leaves it.
\<close>

definition extract_text ::
  "'img parsers \<Rightarrow> uploaded_file \<Rightarrow> pystr list \<times> 'img content option \<times> uploaded_file" where
  "extract_text P f =
     (case extract_text_try P f of
        (Inr c, f) \<Rightarrow> ([], Some c, f)
      | (Inl e, f) \<Rightarrow> ([lit ''Error processing document: '' @ str_of e], None, f))"

section \<open>Notions used to state the properties\<close>

text \<open>
  \<open>answers L c r\<close>: the remote call that the classifier issues for the content \<open>c\<close>
  (the text request for a string, the image request for an image) returns the
  response \<open>r\<close>.
\<close>

definition answers :: "('img, 'json) library \<Rightarrow> 'img content \<Rightarrow> response \<Rightarrow> bool" where
  "answers L c r =
     (case c of
        Str s \<Rightarrow> generate_content L (text_request s) = Inr r
      | Img i \<Rightarrow> generate_content L (image_request i) = Inr r
      | Other \<Rightarrow> False)"

text \<open>A body wrapped in a leading \<open>```json\<close> fence and a trailing \<open>```\<close> fence.\<close>

definition fenced :: "pystr \<Rightarrow> pystr" where
  "fenced B = lit ''```json'' @ B @ lit ''```''"

text \<open>\<open>sep.join(parts)\<close>.\<close>

fun join :: "pystr \<Rightarrow> pystr list \<Rightarrow> pystr" where
  "join sep [] = []"
| "join sep [p] = p"
| "join sep (p # q # ps) = p @ sep @ join sep (q # ps)"

text \<open>A string that neither begins nor ends with white space.\<close>

definition trimmed :: "pystr \<Rightarrow> bool" where
  "trimmed s = (case s of [] \<Rightarrow> True | c # _ \<Rightarrow> \<not> isspace c \<and> \<not> isspace (last s))"

text \<open>
  Test doubles for the libraries, used to run the model on concrete inputs: a remote
  model that answers every request with one response, a decoder that knows the
  documents of a table and rejects everything else, a model class that takes the
  decoded value as it is; and parsers that give fixed pages.
\<close>

definition stub_library ::
  "response \<Rightarrow> (pystr \<times> classification_result) list \<Rightarrow> (unit, classification_result) library" where
  "stub_library r table =
     \<lparr>generate_content = (\<lambda>_. Inr r),
      json_loads = (\<lambda>s. case map_of table s of
                            Some v \<Rightarrow> Inr v
                          | None \<Rightarrow> Inl (JSONDecodeError (lit ''Expecting value''))),
      ClassificationResult = Inr\<rparr>"

definition stub_parsers :: "(exn + pystr) list \<Rightarrow> unit parsers" where
  "stub_parsers pages =
     \<lparr>PdfReader = (\<lambda>_. Inr pages), Document = (\<lambda>_. Inr []), Image_open = (\<lambda>f. (Inr (), f))\<rparr>"



definition memo :: classification_result where
  "memo = \<lparr>category = lit ''Memo'', confidence = Finite 1.5, explanation = lit ''internal note''\<rparr>"

definition invoice :: classification_result where
  "invoice = \<lparr>category = lit ''Invoice'', confidence = Finite 0.5, explanation = lit ''has totals''\<rparr>"

definition refund :: classification_result where
  "refund = \<lparr>category = lit ''Receipt'', confidence = Finite (- 0.2), explanation = lit ''paid''\<rparr>"

definition example_table :: "(pystr \<times> classification_result) list" where
  "example_table =
     [(lit ''{\"category\": \"Memo\", \"confidence\": 1.5, \"explanation\": \"internal note\"}'', memo),
      (lit ''{\"category\": \"Invoice\", \"confidence\": 0.5, \"explanation\": \"has totals\"}'', invoice),
      (lit ''{\"category\": \"Receipt\", \"confidence\": -0.2, \"explanation\": \"paid\"}'', refund),
      (lit ''\<newline>{\"category\": \"Invoice\", \"confidence\": 0.5, \"explanation\": \"has totals\"}\<newline>'', invoice)]"

definition answer :: "pystr \<Rightarrow> response" where
  "answer t =
     \<lparr>block_reason = Member (lit ''BLOCK_REASON_UNSPECIFIED'') 0, text' = Text t\<rparr>"

section \<open>Properties of the text helpers\<close>

lemma contains_startswith: "startswith s t \<Longrightarrow> contains s t"
  by (cases s) (auto simp: startswith_def)

lemma contains_prefix: "contains (t @ post) t"
  by (rule contains_startswith) (simp add: startswith_def)

lemma contains_append: "contains (pre @ t @ post) t"
  by (induction pre) (simp_all add: contains_prefix)

lemma contains_suffix: "contains (pre @ t) t"
  using contains_append [of pre t "[]"] by simp


lemma lit_fence_open: "lit ''```json'' = [96, 96, 96, 106, 115, 111, 110]"
  by (simp add: lit_def)

lemma lit_fence_close: "lit ''```'' = [96, 96, 96]"
  by (simp add: lit_def)

lemma strip_fenced: "strip (fenced B) = fenced B"
  by (simp add: strip_def lstrip_def rstrip_def fenced_def lit_fence_open lit_fence_close
        isspace_def)

lemma normalized_fenced: "normalized (fenced B) = B"
proof -
  have open_fence: "startswith (fenced B) (lit ''```json'')"
    by (simp add: startswith_def fenced_def lit_fence_open)
  have rest: "slice_from 7 (fenced B) = B @ lit ''```''"
    by (simp add: slice_from_def fenced_def lit_fence_open)
  have close_fence: "endswith (B @ lit ''```'') (lit ''```'')"
    by (simp add: endswith_def lit_fence_close)
  have body: "slice_to_minus 3 (B @ lit ''```'') = B"
    by (simp add: slice_to_minus_def lit_fence_close)
  show ?thesis
    by (simp add: normalized_def strip_fenced open_fence rest close_fence body)
qed


section \<open>Properties of the classification client\<close>

subsection \<open>What each path returns for a given response\<close>

lemma classify_text_parsed:
  assumes "generate_content L (text_request s) = Inr r"
    and "\<not> truthy (block_reason r)" and "text' r = Text t"
    and "json_loads L (normalized t) = Inr v"
    and "ClassificationResult L v = Inr cr"
  shows "classify_text L s =
           ([], Inr \<lparr>category = (if category cr \<in> set categories then category cr
                                  else lit ''Others''),
                     confidence = py_max (Finite 0) (py_min (Finite 1) (confidence cr)),
                     explanation = explanation cr\<rparr>)"
  using assms by (simp add: classify_text_def classify_text_try_def normalized_def Let_def)

lemma classify_image_parsed:
  assumes "generate_content L (image_request i) = Inr r"
    and "\<not> truthy (block_reason r)" and "text' r = Text t"
    and "json_loads L (normalized t) = Inr v"
    and "ClassificationResult L v = Inr cr"
  shows "classify_image L i =
           ([], Inr \<lparr>category = (if category cr \<in> set categories then category cr
                                  else lit ''Others''),
                     confidence = py_max (Finite 0) (py_min (Finite 1) (confidence cr)),
                     explanation = explanation cr\<rparr>)"
  using assms by (simp add: classify_image_def classify_image_try_def normalized_def Let_def)

lemma classify_document_parsed:
  assumes "answers L c r"
    and "\<not> truthy (block_reason r)" and "text' r = Text t"
    and "json_loads L (normalized t) = Inr v"
    and "ClassificationResult L v = Inr cr"
  shows "classify_document L c =
           ([], Inr \<lparr>category = (if category cr \<in> set categories then category cr
                                  else lit ''Others''),
                     confidence = py_max (Finite 0) (py_min (Finite 1) (confidence cr)),
                     explanation = explanation cr\<rparr>)"
proof (cases c)
  case (Str s)
  with assms show ?thesis
    by (simp add: classify_document_def answers_def classify_text_parsed)
next
  case (Img i)
  with assms show ?thesis
    by (simp add: classify_document_def answers_def classify_image_parsed)
next
  case Other
  with assms show ?thesis by (simp add: answers_def)
qed




lemma classify_document_blocked:
  assumes "answers L c r" and "truthy (block_reason r)"
  shows "classify_document L c =
           (case name_of (block_reason r) of
              Inr name \<Rightarrow>
                ([lit ''An unexpected classification error occurred: ''
                  @ lit ''Classification failed due to safety settings. Reason: '' @ name],
                 Inl (ValueError
                       (lit ''An unexpected error occurred during classification: ''
                        @ lit ''Classification failed due to safety settings. Reason: '' @ name)))
            | Inl e \<Rightarrow>
                ([lit ''An unexpected classification error occurred: '' @ str_of e],
                 Inl (ValueError
                       (lit ''An unexpected error occurred during classification: '' @ str_of e))))"
proof (cases c)
  case (Str s)
  with assms show ?thesis
    by (cases "block_reason r")
      (simp_all add: classify_document_def answers_def classify_text_def classify_text_try_def)
next
  case (Img i)
  with assms show ?thesis
    by (cases "block_reason r")
      (simp_all add: classify_document_def answers_def classify_image_def
        classify_image_try_def)
next
  case Other
  with assms show ?thesis by (simp add: answers_def)
qed

lemma classify_document_blocked_named:
  assumes "answers L c r" and "block_reason r = Member name v" and "v \<noteq> 0"
  shows "classify_document L c =
           ([lit ''An unexpected classification error occurred: ''
             @ lit ''Classification failed due to safety settings. Reason: '' @ name],
            Inl (ValueError
                  (lit ''An unexpected error occurred during classification: ''
                   @ lit ''Classification failed due to safety settings. Reason: '' @ name)))"
  using classify_document_blocked [OF assms(1)] assms(2,3) by simp

lemma classify_document_blocked_unnamed:
  assumes "answers L c r" and "block_reason r = PlainInt v" and "v \<noteq> 0"
  shows "classify_document L c =
           ([lit ''An unexpected classification error occurred: '' @ no_name_message],
            Inl (ValueError
                  (lit ''An unexpected error occurred during classification: ''
                   @ no_name_message)))"
  using classify_document_blocked [OF assms(1)] assms(2,3) by simp

text \<open>
  The outcome of a call is determined by the response, the decoder and the model
  class: two libraries that agree on these give the same outcome once the same text
  reaches the decoder.
\<close>

lemma classify_document_same_decoded:
  assumes a1: "answers L1 c (r\<lparr>text' := Text t1\<rparr>)"
    and a2: "answers L2 c (r\<lparr>text' := Text t2\<rparr>)"
    and same: "json_loads L2 (normalized t2) = json_loads L1 (normalized t1)"
    and cls: "ClassificationResult L2 = ClassificationResult L1"
    and ok: "\<forall>m. json_loads L1 (normalized t1) \<noteq> Inl (JSONDecodeError m)"
  shows "classify_document L1 c = classify_document L2 c"
proof (cases "truthy (block_reason r)")
  case True
  then show ?thesis
    using classify_document_blocked [OF a1] classify_document_blocked [OF a2]
    by simp
next
  case None: False
  show ?thesis
  proof (cases "json_loads L1 (normalized t1)")
    case (Inr v)
    show ?thesis
    proof (cases "ClassificationResult L1 v")
      case cr: (Inr cr)
      have "classify_document L1 c = classify_document L2 c"
        using classify_document_parsed [OF a1 _ _ Inr cr]
          classify_document_parsed [OF a2, of t2 v cr] None Inr cr same cls
        by simp
      then show ?thesis .
    next
      case m: (Inl m)
      show ?thesis
      proof (cases c)
        case (Str s)
        with a1 a2 None Inr m same cls show ?thesis
          by (simp add: classify_document_def answers_def classify_text_def
              classify_text_try_def normalized_def Let_def)
      next
        case (Img i)
        with a1 a2 None Inr m same cls show ?thesis
          by (simp add: classify_document_def answers_def classify_image_def
              classify_image_try_def normalized_def Let_def)
      next
        case Other
        with a1 show ?thesis by (simp add: answers_def)
      qed
    qed
  next
    case e: (Inl e)
    with ok have nj: "\<And>m. e \<noteq> JSONDecodeError m" by auto
    show ?thesis
    proof (cases c)
      case (Str s)
      with a1 a2 None e same cls nj show ?thesis
        by (cases e)
          (auto simp add: classify_document_def answers_def classify_text_def
            classify_text_try_def normalized_def Let_def getattr_text_def)
    next
      case (Img i)
      with a1 a2 None e same cls nj show ?thesis
        by (cases e)
          (auto simp add: classify_document_def answers_def classify_image_def
            classify_image_try_def normalized_def Let_def getattr_text_def)
    next
      case Other
      with a1 show ?thesis by (simp add: answers_def)
    qed
  qed
qed

lemma paths_agree:
  assumes "generate_content L (text_request s) = generate_content L (image_request i)"
  shows "classify_text L s = classify_image L i"
  using assms
  by (simp add: classify_text_def classify_image_def classify_text_try_def
        classify_image_try_def)

subsection \<open>Validation of the parsed fields\<close>

text \<open>
  C1. When the response of the remote model parses into the three fields, the result of
  \<open>classify_document\<close> has the category \<open>Others\<close> if the parsed category is not one of
  the eight fixed values, and the parsed category unchanged if it is one of them.
\<close>

theorem classify_document_category:
  assumes "answers L c r"
    and "\<not> truthy (block_reason r)" and "text' r = Text t"
    and "json_loads L (normalized t) = Inr v"
    and "ClassificationResult L v = Inr cr"
  shows "\<exists>d. classify_document L c = ([], Inr d)
           \<and> (category cr \<notin> set categories \<longrightarrow> category d = lit ''Others'')
           \<and> (category cr \<in> set categories \<longrightarrow> category d = category cr)"
  using classify_document_parsed [OF assms] by simp

theorem classify_document_category_witness:
  "answers (stub_library (answer (fenced (fst (example_table ! 0)))) example_table)
     (Str (lit ''minutes of the meeting'')) (answer (fenced (fst (example_table ! 0))))
   \<and> category memo \<notin> set categories
   \<and> (\<exists>d. classify_document (stub_library (answer (fenced (fst (example_table ! 0)))) example_table)
              (Str (lit ''minutes of the meeting'')) = ([], Inr d)
          \<and> category d = lit ''Others'')
   \<and> answers (stub_library (answer (fst (example_table ! 1))) example_table)
       (Img ()) (answer (fst (example_table ! 1)))
   \<and> category invoice \<in> set categories
   \<and> (\<exists>d. classify_document (stub_library (answer (fst (example_table ! 1))) example_table)
              (Img ()) = ([], Inr d)
          \<and> category d = lit ''Invoice'')"
proof -
  let ?t0 = "fenced (fst (example_table ! 0))"
  let ?t1 = "fst (example_table ! 1)"
  let ?L0 = "stub_library (answer ?t0) example_table"
  let ?L1 = "stub_library (answer ?t1) example_table"
  have a0: "answers ?L0 (Str (lit ''minutes of the meeting'')) (answer ?t0)"
    by (simp add: answers_def stub_library_def)
  have a1: "answers ?L1 (Img ()) (answer ?t1)"
    by (simp add: answers_def stub_library_def)
  have d0: "json_loads ?L0 (normalized ?t0) = Inr memo"
    by (simp add: normalized_fenced stub_library_def example_table_def lit_def)
  have n1: "normalized ?t1 = ?t1"
    by (simp add: example_table_def normalized_def strip_def lstrip_def rstrip_def
          startswith_def endswith_def lit_def isspace_def)
  have d1: "json_loads ?L1 (normalized ?t1) = Inr invoice"
    unfolding n1 by (simp add: stub_library_def example_table_def lit_def)
  have c0: "category memo \<notin> set categories"
    by (simp add: memo_def categories_def lit_def)
  have c1: "category invoice \<in> set categories"
    by (simp add: invoice_def categories_def)
  have m0: "ClassificationResult ?L0 memo = Inr memo"
    by (simp add: stub_library_def)
  have m1: "ClassificationResult ?L1 invoice = Inr invoice"
    by (simp add: stub_library_def)
  have i1: "category invoice = lit ''Invoice''"
    by (simp add: invoice_def)
  from classify_document_category [OF a0 _ _ d0 m0] classify_document_category [OF a1 _ _ d1 m1]
  show ?thesis
    using a0 a1 c0 c1 i1 by (simp add: answer_def)
qed

text \<open>
  C2. When the response parses into the three fields, the confidence of the result is
  \<open>max(0.0, min(1.0, reported))\<close>: a real number in the unit interval, \<open>1.0\<close> for a report
  above one, \<open>0.0\<close> for a report below zero, and the report itself when it lies between
  zero and one.
\<close>

theorem classify_document_confidence:
  assumes "answers L c r"
    and "\<not> truthy (block_reason r)" and "text' r = Text t"
    and "json_loads L (normalized t) = Inr v"
    and "ClassificationResult L v = Inr cr"
  shows "\<exists>d. classify_document L c = ([], Inr d)
           \<and> confidence d = py_max (Finite 0) (py_min (Finite 1) (confidence cr))
           \<and> (\<exists>y. confidence d = Finite y \<and> 0 \<le> y \<and> y \<le> 1)
           \<and> (\<forall>x. confidence cr = Finite x \<longrightarrow> confidence d = Finite (max 0 (min 1 x)))
           \<and> (py_lt (Finite 1) (confidence cr) \<longrightarrow> confidence d = Finite 1)
           \<and> (py_lt (confidence cr) (Finite 0) \<longrightarrow> confidence d = Finite 0)
           \<and> (\<forall>x. confidence cr = Finite x \<and> 0 \<le> x \<and> x \<le> 1 \<longrightarrow> confidence d = Finite x)"
  using classify_document_parsed [OF assms]
  by (cases "confidence cr") (auto simp add: py_max_def py_min_def)

theorem classify_document_confidence_witness:
  "(\<exists>d. classify_document (stub_library (answer (fst (example_table ! 0))) example_table)
           (Str (lit ''minutes of the meeting'')) = ([], Inr d)
        \<and> py_lt (Finite 1) (confidence memo) \<and> confidence d = Finite 1)
   \<and> (\<exists>d. classify_document (stub_library (answer (fst (example_table ! 2))) example_table)
             (Str (lit ''paid in full'')) = ([], Inr d)
          \<and> py_lt (confidence refund) (Finite 0) \<and> confidence d = Finite 0)
   \<and> (\<exists>d. classify_document (stub_library (answer (fst (example_table ! 1))) example_table)
             (Img ()) = ([], Inr d)
          \<and> confidence invoice = Finite 0.5 \<and> confidence d = Finite 0.5)"
proof -
  let ?t0 = "fst (example_table ! 0)"
  let ?t1 = "fst (example_table ! 1)"
  let ?t2 = "fst (example_table ! 2)"
  let ?L0 = "stub_library (answer ?t0) example_table"
  let ?L1 = "stub_library (answer ?t1) example_table"
  let ?L2 = "stub_library (answer ?t2) example_table"
  have a0: "answers ?L0 (Str (lit ''minutes of the meeting'')) (answer ?t0)"
    by (simp add: answers_def stub_library_def)
  have a1: "answers ?L1 (Img ()) (answer ?t1)"
    by (simp add: answers_def stub_library_def)
  have a2: "answers ?L2 (Str (lit ''paid in full'')) (answer ?t2)"
    by (simp add: answers_def stub_library_def)
  have n0: "normalized ?t0 = ?t0"
    by (simp add: example_table_def normalized_def strip_def lstrip_def rstrip_def
          startswith_def endswith_def lit_def isspace_def)
  have n1: "normalized ?t1 = ?t1"
    by (simp add: example_table_def normalized_def strip_def lstrip_def rstrip_def
          startswith_def endswith_def lit_def isspace_def)
  have n2: "normalized ?t2 = ?t2"
    by (simp add: example_table_def normalized_def strip_def lstrip_def rstrip_def
          startswith_def endswith_def lit_def isspace_def)
  have d0: "json_loads ?L0 (normalized ?t0) = Inr memo"
    unfolding n0 by (simp add: stub_library_def example_table_def lit_def)
  have d1: "json_loads ?L1 (normalized ?t1) = Inr invoice"
    unfolding n1 by (simp add: stub_library_def example_table_def lit_def)
  have d2: "json_loads ?L2 (normalized ?t2) = Inr refund"
    unfolding n2 by (simp add: stub_library_def example_table_def lit_def)
  have m0: "ClassificationResult ?L0 memo = Inr memo"
    by (simp add: stub_library_def)
  have m1: "ClassificationResult ?L1 invoice = Inr invoice"
    by (simp add: stub_library_def)
  have m2: "ClassificationResult ?L2 refund = Inr refund"
    by (simp add: stub_library_def)
  have v0: "py_lt (Finite 1) (confidence memo)" by (simp add: memo_def)
  have v1: "confidence invoice = Finite 0.5" by (simp add: invoice_def)
  have v2: "py_lt (confidence refund) (Finite 0)" by (simp add: refund_def)
  have r0: "\<exists>d. classify_document ?L0 (Str (lit ''minutes of the meeting'')) = ([], Inr d)
              \<and> confidence d = Finite 1"
    using classify_document_confidence [OF a0 _ _ d0 m0] v0 by (auto simp add: answer_def)
  have r1: "\<exists>d. classify_document ?L1 (Img ()) = ([], Inr d) \<and> confidence d = Finite 0.5"
    using classify_document_confidence [OF a1 _ _ d1 m1] v1 by (auto simp add: answer_def)
  have r2: "\<exists>d. classify_document ?L2 (Str (lit ''paid in full'')) = ([], Inr d)
              \<and> confidence d = Finite 0"
    using classify_document_confidence [OF a2 _ _ d2 m2] v2 by (auto simp add: answer_def)
  from r0 r1 r2 v0 v1 v2 show ?thesis by simp
qed

subsection \<open>Failures\<close>




text \<open>
  C8. When the remote service reports a safety block (the block reason of the prompt
  feedback is set), classification fails with one \<open>ValueError\<close> and the message names
  the block reason. The code does so for a block reason that is a member of the
  client's enumeration (\<open>classify_document_blocked_named\<close> above). For a block reason
  that the enumeration does not know, which the client hands over as a plain integer,
  the read of \<open>.name\<close> raises \<open>AttributeError\<close>: classification still fails with one
  \<open>ValueError\<close>, but its message is that of the \<open>AttributeError\<close> and names no block
  reason. The evaluation below is at the plain integer 7.
\<close>

theorem classify_document_unnamed_block_reason:
  "truthy (PlainInt 7)
   \<and> name_of (PlainInt 7) = Inl (AttributeError no_name_message)
   \<and> classify_document
         (stub_library \<lparr>block_reason = PlainInt 7, text' = NoTextAttr\<rparr> example_table)
         (Str (lit ''some text''))
       = ([lit ''An unexpected classification error occurred: '' @ no_name_message],
          Inl (ValueError
                (lit ''An unexpected error occurred during classification: ''
                 @ no_name_message)))
   \<and> no_name_message
       = [39, 105, 110, 116, 39, 32, 111, 98, 106, 101, 99, 116, 32, 104, 97, 115, 32, 110,
          111, 32, 97, 116, 116, 114, 105, 98, 117, 116, 101, 32, 39, 110, 97, 109, 101, 39]
   \<and> \<not> contains
         (lit ''An unexpected error occurred during classification: '' @ no_name_message)
         (lit ''Reason'')"
proof -
  let ?r = "\<lparr>block_reason = PlainInt 7, text' = NoTextAttr\<rparr>"
  let ?L = "stub_library ?r example_table"
  have a: "answers ?L (Str (lit ''some text'')) ?r"
    by (simp add: answers_def stub_library_def)
  have r: "classify_document ?L (Str (lit ''some text''))
           = ([lit ''An unexpected classification error occurred: '' @ no_name_message],
              Inl (ValueError
                    (lit ''An unexpected error occurred during classification: ''
                     @ no_name_message)))"
    using classify_document_blocked_unnamed [OF a, of 7] by simp
  have m: "no_name_message
           = [39, 105, 110, 116, 39, 32, 111, 98, 106, 101, 99, 116, 32, 104, 97, 115, 32, 110,
              111, 32, 97, 116, 116, 114, 105, 98, 117, 116, 101, 32, 39, 110, 97, 109, 101, 39]"
    by (simp add: no_name_message_def lit_def)
  have c: "\<not> contains
               (lit ''An unexpected error occurred during classification: '' @ no_name_message)
               (lit ''Reason'')"
    unfolding m by (simp add: lit_def startswith_def)
  from r m c show ?thesis by simp
qed

subsection \<open>The two paths\<close>

text \<open>
  C9. The text path and the image path treat what the remote call gives in the same
  way: when the remote call of the text path and that of the image path give the same
  response (or raise the same exception), \<open>_classify_text\<close> and \<open>_classify_image\<close>
  return equal results or raise equal errors, and log the same messages.
\<close>

theorem classify_text_image_agree:
  assumes "generate_content L (text_request s) = generate_content L (image_request i)"
  shows "classify_text L s = classify_image L i"
  using assms by (rule paths_agree)

theorem classify_text_image_agree_witness:
  "generate_content (stub_library (answer (fenced (fst (example_table ! 0)))) example_table)
     (text_request (lit ''minutes of the meeting''))
   = generate_content (stub_library (answer (fenced (fst (example_table ! 0)))) example_table)
       (image_request ())
   \<and> classify_text (stub_library (answer (fenced (fst (example_table ! 0)))) example_table)
       (lit ''minutes of the meeting'')
     = classify_image (stub_library (answer (fenced (fst (example_table ! 0)))) example_table) ()"
proof -
  let ?L = "stub_library (answer (fenced (fst (example_table ! 0)))) example_table"
  have g: "generate_content ?L (text_request (lit ''minutes of the meeting''))
           = generate_content ?L (image_request ())"
    by (simp add: stub_library_def)
  from classify_text_image_agree [OF g] g show ?thesis by simp
qed

subsection \<open>Fenced responses\<close>

text \<open>
  C3. A response whose text is a JSON body \<open>B\<close> between a leading \<open>```json\<close> fence and
  a trailing \<open>```\<close> fence has the same outcome (the same result, or the same failure with
  the same message) as the response whose text is \<open>B\<close> alone. A JSON body is a text that
  the decoder accepts, and that it reads alike with and without what the normalization
  removes from it, as \<open>json.loads\<close> does for the white space around a document. The
  normalization of the fenced text is \<open>B\<close> itself, whatever \<open>B\<close> is.
\<close>

theorem fenced_response_same_outcome:
  assumes "answers L1 c (r\<lparr>text' := Text (fenced B)\<rparr>)"
    and "answers L2 c (r\<lparr>text' := Text B\<rparr>)"
    and "json_loads L2 = json_loads L1"
    and "ClassificationResult L2 = ClassificationResult L1"
    and "\<forall>m. json_loads L1 B \<noteq> Inl (JSONDecodeError m)"
    and "json_loads L1 (normalized B) = json_loads L1 B"
  shows "normalized (fenced B) = B \<and> classify_document L1 c = classify_document L2 c"
proof -
  have same: "json_loads L2 (normalized B) = json_loads L1 (normalized (fenced B))"
    using assms(3,6) by (simp add: normalized_fenced)
  have ok: "\<forall>m. json_loads L1 (normalized (fenced B)) \<noteq> Inl (JSONDecodeError m)"
    using assms(5) by (simp add: normalized_fenced)
  from classify_document_same_decoded [OF assms(1,2) same assms(4) ok]
  show ?thesis by (simp add: normalized_fenced)
qed

theorem fenced_response_same_outcome_witness:
  "answers (stub_library (answer (fenced (fst (example_table ! 3)))) example_table)
     (Str (lit ''total due''))
     ((answer [])\<lparr>text' := Text (fenced (fst (example_table ! 3)))\<rparr>)
   \<and> answers (stub_library (answer (fst (example_table ! 3))) example_table)
       (Str (lit ''total due''))
       ((answer [])\<lparr>text' := Text (fst (example_table ! 3))\<rparr>)
   \<and> json_loads (stub_library (answer (fenced (fst (example_table ! 3)))) example_table)
         (fst (example_table ! 3)) = Inr invoice
   \<and> json_loads (stub_library (answer (fenced (fst (example_table ! 3)))) example_table)
         (normalized (fst (example_table ! 3))) = Inr invoice
   \<and> normalized (fst (example_table ! 3)) \<noteq> fst (example_table ! 3)
   \<and> classify_document (stub_library (answer (fenced (fst (example_table ! 3)))) example_table)
         (Str (lit ''total due''))
       = classify_document (stub_library (answer (fst (example_table ! 3))) example_table)
           (Str (lit ''total due''))"
proof -
  let ?B = "fst (example_table ! 3)"
  let ?L1 = "stub_library (answer (fenced ?B)) example_table"
  let ?L2 = "stub_library (answer ?B) example_table"
  have a1: "answers ?L1 (Str (lit ''total due'')) ((answer [])\<lparr>text' := Text (fenced ?B)\<rparr>)"
    by (simp add: answers_def stub_library_def answer_def)
  have a2: "answers ?L2 (Str (lit ''total due'')) ((answer [])\<lparr>text' := Text ?B\<rparr>)"
    by (simp add: answers_def stub_library_def answer_def)
  have j: "json_loads ?L2 = json_loads ?L1"
    by (simp add: stub_library_def)
  have k: "ClassificationResult ?L2 = ClassificationResult ?L1"
    by (simp add: stub_library_def)
  have n: "normalized ?B = fst (example_table ! 1)"
    by (simp add: example_table_def normalized_def strip_def lstrip_def rstrip_def
          startswith_def endswith_def lit_def isspace_def)
  have d: "json_loads ?L1 ?B = Inr invoice"
    by (simp add: stub_library_def example_table_def lit_def)
  have d': "json_loads ?L1 (normalized ?B) = Inr invoice"
    unfolding n by (simp add: stub_library_def example_table_def lit_def)
  have ne: "normalized ?B \<noteq> ?B"
    unfolding n by (simp add: example_table_def lit_def)
  have ok: "\<forall>m. json_loads ?L1 ?B \<noteq> Inl (JSONDecodeError m)"
    unfolding d by simp
  have eq: "json_loads ?L1 (normalized ?B) = json_loads ?L1 ?B"
    unfolding d d' by simp
  from fenced_response_same_outcome [OF a1 a2 j k ok eq]
  have "classify_document ?L1 (Str (lit ''total due''))
        = classify_document ?L2 (Str (lit ''total due''))"
    by simp
  with a1 a2 d d' ne show ?thesis by simp
qed

section \<open>Properties of the content extractor\<close>

subsection \<open>Unsupported media types\<close>

text \<open>
  C5. For a declared media type that is not PDF, not \<open>image/*\<close>, not plain text and not
  the word-processor type, the dispatch raises the unsupported-type error (a
  \<open>ValueError\<close> in the source) whose message names the media type, and \<open>extract_text\<close>
  returns \<open>None\<close>: the error is shown and not propagated, and the file is not read.
\<close>

theorem extract_text_unsupported:
  assumes "file_type f \<noteq> lit ''application/pdf''"
    and "\<not> startswith (file_type f) (lit ''image/'')"
    and "file_type f \<noteq> lit ''text/plain''"
    and "file_type f
         \<noteq> lit ''application/vnd.openxmlformats-officedocument.wordprocessingml.document''"
  shows "extract_text_try P f
           = (Inl (ValueError (lit ''Unsupported file type: '' @ file_type f)), f)
         \<and> contains (lit ''Unsupported file type: '' @ file_type f) (file_type f)
         \<and> extract_text P f
           = ([lit ''Error processing document: '' @ lit ''Unsupported file type: '' @ file_type f],
              None, f)"
  using assms by (simp add: extract_text_def extract_text_try_def contains_suffix)

theorem extract_text_unsupported_witness:
  "lit ''application/zip'' \<noteq> lit ''application/pdf''
   \<and> \<not> startswith (lit ''application/zip'') (lit ''image/'')
   \<and> lit ''application/zip'' \<noteq> lit ''text/plain''
   \<and> lit ''application/zip''
       \<noteq> lit ''application/vnd.openxmlformats-officedocument.wordprocessingml.document''
   \<and> extract_text (stub_parsers []) \<lparr>file_type = lit ''application/zip'', data = [80, 75], pos = 0\<rparr>
       = ([lit ''Error processing document: Unsupported file type: application/zip''], None,
          \<lparr>file_type = lit ''application/zip'', data = [80, 75], pos = 0\<rparr>)"
proof -
  let ?f = "\<lparr>file_type = lit ''application/zip'', data = [80, 75], pos = 0\<rparr>"
  have h1: "file_type ?f \<noteq> lit ''application/pdf''" by (simp add: lit_def)
  have h2: "\<not> startswith (file_type ?f) (lit ''image/'')" by (simp add: startswith_def lit_def)
  have h3: "file_type ?f \<noteq> lit ''text/plain''" by (simp add: lit_def)
  have h4: "file_type ?f
            \<noteq> lit ''application/vnd.openxmlformats-officedocument.wordprocessingml.document''"
    by (simp add: lit_def)
  have l: "lit ''Error processing document: Unsupported file type: application/zip''
           = lit ''Error processing document: '' @ lit ''Unsupported file type: ''
             @ lit ''application/zip''"
    by (simp add: lit_def)
  from extract_text_unsupported [OF h1 h2 h3 h4, of "stub_parsers []"] h1 h2 h3 h4
  show ?thesis unfolding l by simp
qed

subsection \<open>Plain text\<close>

lemma extract_from_text_fallback:
  assumes "utf8 (map unat (drop (pos f) (data f))) = None"
  shows "extract_from_text f
           = (Inr (strip (map unat (data f))), f\<lparr>pos := length (data f)\<rparr>)"
  using assms
  by (simp add: extract_from_text_def read_def seek_def decode_utf8_def decode_latin1_def)

lemma extract_from_text_utf8:
  assumes "utf8 (map unat (drop (pos f) (data f))) = Some s"
  shows "extract_from_text f
           = (Inr (strip s), f\<lparr>pos := max (pos f) (length (data f))\<rparr>)"
  using assms
  by (simp add: extract_from_text_def read_def decode_utf8_def)

text \<open>
  C7. For a plain-text upload whose bytes are not valid UTF-8, extraction succeeds through
  the second decoding: it returns the Latin-1 decoding of all the bytes of the file,
  with leading and trailing white space removed.
\<close>

theorem extract_from_text_latin1:
  assumes "utf8 (map unat (drop (pos f) (data f))) = None"
  shows "\<exists>s. decode_latin1 (data f) = Inr s
           \<and> extract_from_text f = (Inr (strip s), f\<lparr>pos := length (data f)\<rparr>)
           \<and> (file_type f = lit ''text/plain''
                \<longrightarrow> extract_text P f = ([], Some (Str (strip s)), f\<lparr>pos := length (data f)\<rparr>))"
proof -
  have types: "lit ''text/plain'' \<noteq> lit ''application/pdf''"
    "\<not> startswith (lit ''text/plain'') (lit ''image/'')"
    by (simp_all add: lit_def startswith_def)
  show ?thesis
    using extract_from_text_fallback [OF assms] types
    by (simp add: decode_latin1_def extract_text_def extract_text_try_def)
qed

theorem extract_from_text_latin1_witness:
  "utf8 (map unat [32, 99, 97, 102, 233, 10 :: byte]) = None
   \<and> decode_latin1 [32, 99, 97, 102, 233, 10] = Inr [32, 99, 97, 102, 233, 10]
   \<and> extract_text (stub_parsers [])
         \<lparr>file_type = lit ''text/plain'', data = [32, 99, 97, 102, 233, 10], pos = 0\<rparr>
       = ([], Some (Str [99, 97, 102, 233]),
          \<lparr>file_type = lit ''text/plain'', data = [32, 99, 97, 102, 233, 10], pos = 6\<rparr>)"
proof -
  let ?f = "\<lparr>file_type = lit ''text/plain'', data = [32, 99, 97, 102, 233, 10 :: byte], pos = 0\<rparr>"
  have u: "utf8 (map unat [32, 99, 97, 102, 233, 10 :: byte]) = None"
    by simp
  have u': "utf8 (map unat (drop (pos ?f) (data ?f))) = None"
    using u by simp
  have s: "strip [32, 99, 97, 102, 233, 10] = [99, 97, 102, 233]"
    by (simp add: strip_def lstrip_def rstrip_def isspace_def)
  from extract_from_text_latin1 [OF u', of "stub_parsers []"] u s
  show ?thesis by (simp add: decode_latin1_def)
qed

text \<open>
  C10. The Latin-1 decoding succeeds on every sequence of bytes, so the handler that
  would report \<open>Failed to decode text file\<close> is never entered: plain-text extraction
  returns a text for every file and never raises that failure.
\<close>

theorem extract_from_text_no_decode_failure:
  "(\<exists>s. decode_latin1 bs = Inr s)
   \<and> (\<exists>s f'. extract_from_text f = (Inr s, f'))
   \<and> (\<forall>m. fst (extract_from_text f) \<noteq> Inl (Exception (lit ''Failed to decode text file: '' @ m)))"
proof (cases "utf8 (map unat (drop (pos f) (data f)))")
  case None
  from extract_from_text_fallback [OF None] show ?thesis
    by (simp add: decode_latin1_def)
next
  case (Some s)
  from extract_from_text_utf8 [OF Some] show ?thesis
    by (simp add: decode_latin1_def)
qed

subsection \<open>PDF\<close>

lemma lit_newline: "lit ''\<newline>'' = [10]"
  by (simp add: lit_def)

lemma isspace_newline: "isspace 10"
  by (simp add: isspace_def)

lemma trimmed_iff: "trimmed s \<longleftrightarrow> s = [] \<or> (\<not> isspace (hd s) \<and> \<not> isspace (last s))"
  by (cases s) (simp_all add: trimmed_def)

lemma rstrip_newline: "rstrip (s @ [10]) = rstrip s"
  by (simp add: rstrip_def isspace_newline)

lemma strip_newline: "strip (s @ [10]) = strip s"
proof (cases "\<forall>c\<in>set s. isspace c")
  case True
  then have "lstrip (s @ [10]) = []" and "lstrip s = []"
    by (simp_all add: lstrip_def isspace_newline)
  then show ?thesis by (simp add: strip_def)
next
  case False
  then obtain c where "c \<in> set s" and "\<not> isspace c" by blast
  then have "lstrip (s @ [10]) = lstrip s @ [10]"
    unfolding lstrip_def by (rule dropWhile_append1)
  then show ?thesis by (simp add: strip_def rstrip_newline)
qed

lemma rstrip_prefix: "s = rstrip s @ rev (takeWhile isspace (rev s))"
proof -
  have "rev (dropWhile isspace (rev s)) @ rev (takeWhile isspace (rev s))
        = rev (takeWhile isspace (rev s) @ dropWhile isspace (rev s))"
    by (simp only: rev_append)
  also have "\<dots> = rev (rev s)"
    by (simp only: takeWhile_dropWhile_id)
  finally show ?thesis by (simp add: rstrip_def)
qed

lemma trimmed_strip: "trimmed (strip s)"
proof (cases "strip s = []")
  case True
  then show ?thesis by (simp add: trimmed_iff)
next
  case False
  let ?t = "lstrip s"
  from False have ne: "dropWhile isspace (rev ?t) \<noteq> []"
    by (simp add: strip_def rstrip_def)
  have "last (strip s) = hd (dropWhile isspace (rev ?t))"
    using ne by (simp add: strip_def rstrip_def last_rev)
  with ne have l: "\<not> isspace (last (strip s))"
    by (simp add: hd_dropWhile)
  from False have tne: "?t \<noteq> []"
    by (auto simp add: strip_def rstrip_def)
  have "?t = strip s @ rev (takeWhile isspace (rev ?t))"
    using rstrip_prefix [of ?t] by (simp add: strip_def)
  then have "hd ?t = hd (strip s @ rev (takeWhile isspace (rev ?t)))"
    by (rule arg_cong)
  with False have "hd (strip s) = hd ?t" by simp
  with tne have h: "\<not> isspace (hd (strip s))"
    by (simp add: lstrip_def hd_dropWhile)
  from h l show ?thesis by (simp add: trimmed_iff)
qed

lemma strip_trimmed: "trimmed s \<Longrightarrow> strip s = s"
proof (cases s rule: rev_cases)
  case Nil
  then show ?thesis by (simp add: strip_def lstrip_def rstrip_def)
next
  case (snoc ys y)
  assume "trimmed s"
  with snoc have h: "\<not> isspace (hd s)" and l: "\<not> isspace y"
    by (simp_all add: trimmed_iff)
  from snoc have "s \<noteq> []" by simp
  with h have "lstrip s = s"
    by (cases s) (simp_all add: lstrip_def)
  moreover from snoc l have "rstrip s = s"
    by (simp add: rstrip_def)
  ultimately show ?thesis by (simp add: strip_def)
qed

lemma pdf_loop_pages:
  "pdf_loop (map Inr ps) acc = Inr (acc @ concat (map (\<lambda>p. p @ [10]) ps))"
  by (induction ps arbitrary: acc) (simp_all add: lit_newline)

lemma concat_pages_join:
  "ps \<noteq> [] \<Longrightarrow> concat (map (\<lambda>p. p @ [10]) ps) = join [10] ps @ [10]"
  by (induction "[10::nat]" ps rule: join.induct) simp_all

lemma strip_pages: "strip (concat (map (\<lambda>p. p @ [10]) ps)) = strip (join [10] ps)"
  by (cases "ps = []") (simp_all add: concat_pages_join strip_newline)

lemma extract_from_pdf_pages:
  assumes "PdfReader P (drop (pos f) (data f)) = Inr (map Inr ps)"
  shows "extract_from_pdf P f
           = (Inr (strip (join [10] ps)), f\<lparr>pos := max (pos f) (length (data f))\<rparr>)"
  using assms
  by (simp add: extract_from_pdf_def read_def pdf_loop_pages strip_pages)

text \<open>
  C6, as the code has it. For a PDF whose pages all yield text, extraction returns the
  texts of the pages in page order joined by newlines, with the white space at the two
  ends of the joined string removed: the result neither begins nor ends with white
  space. When the joined string itself neither begins nor ends with white space, the
  result is exactly the page texts joined by single newlines.
\<close>

theorem extract_from_pdf_joined:
  assumes "PdfReader P (drop (pos f) (data f)) = Inr (map Inr ps)"
  shows "fst (extract_from_pdf P f) = Inr (strip (join (lit ''\<newline>'') ps))
         \<and> trimmed (strip (join (lit ''\<newline>'') ps))
         \<and> (trimmed (join (lit ''\<newline>'') ps)
              \<longrightarrow> fst (extract_from_pdf P f) = Inr (join (lit ''\<newline>'') ps))"
  using extract_from_pdf_pages [OF assms]
  by (simp add: lit_newline trimmed_strip strip_trimmed)

theorem extract_from_pdf_joined_witness:
  "PdfReader (stub_parsers [Inr (lit ''Invoice 42 ''), Inr (lit '' Total 10'')])
     (drop 0 [37, 80, 68, 70])
     = Inr (map Inr [lit ''Invoice 42 '', lit '' Total 10''])
   \<and> trimmed (join (lit ''\<newline>'') [lit ''Invoice 42 '', lit '' Total 10''])
   \<and> fst (extract_from_pdf (stub_parsers [Inr (lit ''Invoice 42 ''), Inr (lit '' Total 10'')])
           \<lparr>file_type = lit ''application/pdf'', data = [37, 80, 68, 70], pos = 0\<rparr>)
       = Inr (lit ''Invoice 42 \<newline> Total 10'')"
proof -
  let ?ps = "[lit ''Invoice 42 '', lit '' Total 10'']"
  let ?P = "stub_parsers [Inr (lit ''Invoice 42 ''), Inr (lit '' Total 10'')]"
  let ?f = "\<lparr>file_type = lit ''application/pdf'', data = [37, 80, 68, 70 :: byte], pos = 0\<rparr>"
  have r: "PdfReader ?P (drop (pos ?f) (data ?f)) = Inr (map Inr ?ps)"
    by (simp add: stub_parsers_def)
  have j: "join (lit ''\<newline>'') ?ps = lit ''Invoice 42 \<newline> Total 10''"
    by (simp add: lit_def)
  have t: "trimmed (lit ''Invoice 42 \<newline> Total 10'')"
    by (simp add: trimmed_def lit_def isspace_def)
  have r': "PdfReader ?P (drop 0 [37, 80, 68, 70]) = Inr (map Inr ?ps)"
    by (simp add: stub_parsers_def)
  from extract_from_pdf_joined [OF r]
  have "trimmed (join (lit ''\<newline>'') ?ps)
        \<longrightarrow> fst (extract_from_pdf ?P ?f) = Inr (join (lit ''\<newline>'') ?ps)"
    by blast
  with t have "fst (extract_from_pdf ?P ?f) = Inr (lit ''Invoice 42 \<newline> Total 10'')"
    unfolding j by blast
  moreover from t have "trimmed (join (lit ''\<newline>'') ?ps)"
    unfolding j .
  ultimately show ?thesis using r' by blast
qed

text \<open>
  The property as the specification words it fails where a page begins or ends the document with white space:
  the only page yields the non-empty text \<open>" a"\<close>, the result is \<open>"a"\<close>, and the text
  of the page is not contained in it.
\<close>

theorem extract_from_pdf_page_text_lost:
  "lit '' a'' \<noteq> []
   \<and> PdfReader (stub_parsers [Inr (lit '' a'')]) [37, 80, 68, 70] = Inr [Inr (lit '' a'')]
   \<and> fst (extract_from_pdf (stub_parsers [Inr (lit '' a'')])
           \<lparr>file_type = lit ''application/pdf'', data = [37, 80, 68, 70], pos = 0\<rparr>)
       = Inr (lit ''a'')
   \<and> \<not> contains (lit ''a'') (lit '' a'')"
  by (simp add: extract_from_pdf_def read_def stub_parsers_def strip_def lstrip_def rstrip_def
        isspace_def startswith_def lit_def)

end
